theory Spec2Isabelle
  imports Complex_Main "HOL-Library.Sublist"
begin

section \<open>Text\<close>

text \<open>
  A Python \<open>str\<close> is a sequence of Unicode code points. It is modelled as a list of
  natural numbers, one per code point, so that \<open>len\<close> is \<open>length\<close> and no encoding is
  involved. \<open>str\<close> turns an ASCII literal into that representation.
\<close>

type_synonym pystr = "nat list"

abbreviation str :: "string \<Rightarrow> pystr" where
  "str s \<equiv> map of_char s"

text \<open>
  \<open>str.isspace\<close> for one code point: the code points CPython classifies as whitespace
  (bidirectional class WS, B or S, or category Zs).
\<close>

definition isspace :: "nat \<Rightarrow> bool" where
  "isspace c \<longleftrightarrow>
     (9 \<le> c \<and> c \<le> 13) \<or> (28 \<le> c \<and> c \<le> 32) \<or> c = 133 \<or> c = 160 \<or> c = 5760 \<or>
     (8192 \<le> c \<and> c \<le> 8202) \<or> c = 8232 \<or> c = 8233 \<or> c = 8239 \<or> c = 8287 \<or> c = 12288"

text \<open>\<open>s.strip()\<close>: whitespace is removed from both ends.\<close>

definition strip :: "pystr \<Rightarrow> pystr" where
  "strip s = rev (dropWhile isspace (rev (dropWhile isspace s)))"

text \<open>\<open>str.lower\<close> on ASCII text: the letters \<open>A\<close> to \<open>Z\<close> become \<open>a\<close> to \<open>z\<close>.\<close>

definition ascii_lower :: "pystr \<Rightarrow> pystr" where
  "ascii_lower s = map (\<lambda>c. if 65 \<le> c \<and> c \<le> 90 then c + 32 else c) s"

text \<open>\<open>str(n)\<close> for a natural number: its decimal digits.\<close>

function decimal :: "nat \<Rightarrow> pystr" where
  "decimal n = (if n < 10 then [48 + n] else decimal (n div 10) @ [48 + n mod 10])"
  by pat_completeness auto
termination
  by (relation "measure (\<lambda>n. n)") auto

declare decimal.simps [simp del]

text \<open>\<open>pat in s\<close>: the text \<open>pat\<close> occurs in \<open>s\<close> as a contiguous piece.\<close>

fun contains :: "pystr \<Rightarrow> pystr \<Rightarrow> bool" where
  "contains pat [] = (pat = [])"
| "contains pat (c # cs) = (prefix pat (c # cs) \<or> contains pat cs)"

text \<open>\<open>s[a:b]\<close> for \<open>0 \<le> a \<le> b\<close>.\<close>

definition slice :: "pystr \<Rightarrow> nat \<Rightarrow> nat \<Rightarrow> pystr" where
  "slice s a b = take (b - a) (drop a s)"

section \<open>The pattern \<open><think>(.*?)</think>\<close> under \<open>re.DOTALL\<close>\<close>

definition open_tag :: pystr where
  "open_tag = str ''<think>''"

definition close_tag :: pystr where
  "close_tag = str ''</think>''"

text \<open>
  The part \<open>(.*?)</think>\<close> of the pattern, tried at the start of \<open>s\<close>. The group is lazy
  and, with \<open>re.DOTALL\<close>, its dot accepts every code point, so the group grows one code
  point at a time until the closing tag follows. The result is the group and the text
  after the closing tag; \<open>None\<close> when no closing tag follows.
\<close>

fun lazy_until_close :: "pystr \<Rightarrow> (pystr \<times> pystr) option" where
  "lazy_until_close [] = None"
| "lazy_until_close (c # cs) =
     (if prefix close_tag (c # cs) then Some ([], drop (length close_tag) (c # cs))
      else case lazy_until_close cs of
             None \<Rightarrow> None
           | Some (g, rest) \<Rightarrow> Some (c # g, rest))"

text \<open>The whole pattern matched at the start of \<open>s\<close>: group 1 and the text after the match.\<close>

definition match_think :: "pystr \<Rightarrow> (pystr \<times> pystr) option" where
  "match_think s =
     (if prefix open_tag s then lazy_until_close (drop (length open_tag) s) else None)"

lemma lazy_until_close_length:
  "lazy_until_close s = Some (g, rest) \<Longrightarrow> length g + length close_tag + length rest = length s"
proof (induction s arbitrary: g)
  case Nil
  then show ?case by simp
next
  case (Cons c cs)
  show ?case
  proof (cases "prefix close_tag (c # cs)")
    case True
    then have "length close_tag \<le> length (c # cs)"
      by (rule prefix_length_le)
    with True Cons.prems show ?thesis by auto
  next
    case False
    with Cons.prems obtain g' where "lazy_until_close cs = Some (g', rest)" and "g = c # g'"
      by (auto split: option.splits)
    with Cons.IH [of g'] show ?thesis by simp
  qed
qed

lemma match_think_length:
  assumes "match_think s = Some (g, rest)"
  shows "length open_tag + length g + length close_tag + length rest = length s"
proof -
  from assms have p: "prefix open_tag s"
    and l: "lazy_until_close (drop (length open_tag) s) = Some (g, rest)"
    by (auto simp: match_think_def split: if_splits)
  from p have "length open_tag \<le> length s"
    by (rule prefix_length_le)
  with lazy_until_close_length [OF l] show ?thesis by simp
qed

lemma match_think_shorter:
  "match_think s = Some (g, rest) \<Longrightarrow> length rest < length s"
  by (drule match_think_length) (simp add: open_tag_def)

text \<open>
  \<open>re.findall\<close> with this pattern: the text is searched from left to right; a match
  contributes its group 1 and the search goes on after the match; where the pattern
  does not match, the search moves one code point on. A match is never empty.
\<close>

function findall_think :: "pystr \<Rightarrow> pystr list" where
  "findall_think [] = []"
| "findall_think (c # cs) =
     (case match_think (c # cs) of
        Some (g, rest) \<Rightarrow> g # findall_think rest
      | None \<Rightarrow> findall_think cs)"
  by pat_completeness auto
termination
  by (relation "measure length") (auto dest: match_think_shorter)

text \<open>
  \<open>re.sub\<close> with this pattern and the replacement \<open>''\<close>: the same search; a match is
  dropped, every other code point is copied.
\<close>

function sub_think :: "pystr \<Rightarrow> pystr" where
  "sub_think [] = []"
| "sub_think (c # cs) =
     (case match_think (c # cs) of
        Some (g, rest) \<Rightarrow> sub_think rest
      | None \<Rightarrow> c # sub_think cs)"
  by pat_completeness auto
termination
  by (relation "measure length") (auto dest: match_think_shorter)

text \<open>\<open>GroqChat.extract_think_content\<close>.\<close>

definition extract_think_content :: "pystr \<Rightarrow> pystr list \<times> pystr" where
  "extract_think_content text =
     (let think_matches = findall_think text;
          response = strip (sub_think text)
      in (think_matches, response))"

section \<open>The spans of the matches\<close>

text \<open>
  The same search, reporting for every match the pair of its start and its end in the
  whole text, as \<open>re.finditer\<close> does with \<open>m.span()\<close>. \<open>pos\<close> is the position of the
  text still to be searched. The program does not call it; it says where the matches of
  \<open>findall_think\<close> and \<open>sub_think\<close> lie.
\<close>

function think_spans :: "nat \<Rightarrow> pystr \<Rightarrow> (nat \<times> nat) list" where
  "think_spans pos [] = []"
| "think_spans pos (c # cs) =
     (case match_think (c # cs) of
        Some (g, rest) \<Rightarrow>
          (pos, pos + length open_tag + length g + length close_tag) #
          think_spans (pos + length open_tag + length g + length close_tag) rest
      | None \<Rightarrow> think_spans (Suc pos) cs)"
  by pat_completeness auto
termination
  by (relation "measure (\<lambda>(pos, s). length s)") (auto dest: match_think_shorter)

text \<open>
  Spans in document order: each one starts at or after \<open>lo\<close>, holds at least the two
  tags, and the next one starts at or after its end; the last one ends at or before \<open>hi\<close>.
\<close>

fun spans_in_order :: "nat \<Rightarrow> (nat \<times> nat) list \<Rightarrow> nat \<Rightarrow> bool" where
  "spans_in_order lo [] hi = (lo \<le> hi)"
| "spans_in_order lo ((a, b) # spans) hi =
     (lo \<le> a \<and> a + length open_tag + length close_tag \<le> b \<and> spans_in_order b spans hi)"

text \<open>A span of the text starts with the opening tag and ends with the closing tag.\<close>

definition tagged_span :: "pystr \<Rightarrow> nat \<times> nat \<Rightarrow> bool" where
  "tagged_span text m =
     (case m of (a, b) \<Rightarrow>
        slice text a (a + length open_tag) = open_tag \<and>
        slice text (b - length close_tag) b = close_tag)"

text \<open>The text between the two tags of a span.\<close>

definition inner_text :: "pystr \<Rightarrow> nat \<times> nat \<Rightarrow> pystr" where
  "inner_text text m =
     (case m of (a, b) \<Rightarrow> slice text (a + length open_tag) (b - length close_tag))"

text \<open>
  The thinking sequence in the words of the specification: the inner text of every
  match, trimmed, in the order of the matches.
\<close>

definition spec_thinking :: "pystr \<Rightarrow> pystr list" where
  "spec_thinking text = map (\<lambda>m. strip (inner_text text m)) (think_spans 0 text)"

section \<open>The display of the thoughts\<close>

text \<open>
  \<open>format_thinking\<close>, used by the display: every thought is trimmed here, wrapped in
  markup after the thought-balloon sign U+1F4AD, and the pieces are joined by an empty line.
\<close>

fun join :: "pystr \<Rightarrow> pystr list \<Rightarrow> pystr" where
  "join sep [] = []"
| "join sep [x] = x"
| "join sep (x # y # ys) = x @ sep @ join sep (y # ys)"

definition format_thinking :: "pystr list \<Rightarrow> pystr" where
  "format_thinking thoughts =
     join [10, 10]
       (map (\<lambda>thought. str ''[thinking]'' @ [128173] @ str '' '' @ strip thought @ str ''[/]'')
            thoughts)"

section \<open>Console markup\<close>

text \<open>
  The terminal library reads a text that is printed, or that is the content of a panel, as
  console markup: \<open>[name]\<close> opens a style, \<open>[/name]\<close> or \<open>[/]\<close> closes one. Rendering
  raises \<open>MarkupError\<close> for a closing tag that closes nothing. What follows is
  \<open>rich.markup.render\<close> as far as it decides whether it raises, and with which text.
\<close>

text \<open>
  The pattern of a tag (\<open>RE_TAGS\<close>), tried at the start of \<open>s\<close>: a run of
  backslashes, an opening bracket, a first code point that is a small letter, \<open>#\<close>,
  \<open>/\<close> or \<open>@\<close>, and then as little as possible, without an opening bracket, up to a
  closing bracket. The result is the number of backslashes, the text of the tag and
  the text after it.
\<close>

definition tag_start :: "nat \<Rightarrow> bool" where
  "tag_start c \<longleftrightarrow> (97 \<le> c \<and> c \<le> 122) \<or> c = 35 \<or> c = 47 \<or> c = 64"

fun tag_rest :: "pystr \<Rightarrow> (pystr \<times> pystr) option" where
  "tag_rest [] = None"
| "tag_rest (c # cs) =
     (if c = 93 then Some ([], cs)
      else if c = 91 then None
      else case tag_rest cs of
             None \<Rightarrow> None
           | Some (t, rest) \<Rightarrow> Some (c # t, rest))"

definition match_tag :: "pystr \<Rightarrow> (nat \<times> pystr \<times> pystr) option" where
  "match_tag s =
     (let escapes = takeWhile (\<lambda>c. c = 92) s
      in case dropWhile (\<lambda>c. c = 92) s of
           b # c # cs \<Rightarrow>
             if b = 91 \<and> tag_start c then
               (case tag_rest cs of
                  None \<Rightarrow> None
                | Some (t, rest) \<Rightarrow> Some (length escapes, c # t, rest))
             else None
         | _ \<Rightarrow> None)"

lemma tag_rest_shorter: "tag_rest s = Some (t, rest) \<Longrightarrow> length rest < length s"
  by (induction s arbitrary: t) (auto split: if_splits option.splits)

lemma match_tag_shorter:
  assumes "match_tag s = Some (escapes, t, rest)"
  shows "length rest < length s"
proof -
  from assms obtain b c cs t' where d: "dropWhile (\<lambda>c. c = 92) s = b # c # cs"
    and r: "tag_rest cs = Some (t', rest)"
    by (auto simp: match_tag_def Let_def split: list.splits if_splits option.splits)
  have "length (dropWhile (\<lambda>c. c = 92) s) \<le> length s"
    by (rule length_dropWhile_le)
  with d tag_rest_shorter [OF r] show ?thesis by simp
qed

text \<open>
  A tag is its name and, when the text of the tag has an equals sign, the parameters
  after it (\<open>tag_text.partition("=")\<close>).
\<close>

type_synonym tag = "pystr \<times> pystr option"

fun partition_equals :: "pystr \<Rightarrow> tag" where
  "partition_equals [] = ([], None)"
| "partition_equals (c # cs) =
     (if c = 61 then ([], Some cs)
      else case partition_equals cs of (name, parameters) \<Rightarrow> (c # name, parameters))"

text \<open>
  \<open>_parse\<close>, the tags only: the text is searched from left to right for the pattern. An
  odd number of backslashes escapes the tag, which is then plain text. Otherwise the
  tag is reported with its position, which lies after the backslashes.
\<close>

function markup_tags :: "nat \<Rightarrow> pystr \<Rightarrow> (nat \<times> tag) list" where
  "markup_tags pos [] = []"
| "markup_tags pos (c # cs) =
     (case match_tag (c # cs) of
        None \<Rightarrow> markup_tags (Suc pos) cs
      | Some (escapes, tag_text, rest) \<Rightarrow>
          if odd escapes then markup_tags (pos + (length (c # cs) - length rest)) rest
          else (pos + 2 * (escapes div 2), partition_equals tag_text) #
               markup_tags (pos + (length (c # cs) - length rest)) rest)"
  by pat_completeness auto
termination
  by (relation "measure (\<lambda>(pos, s). length s)") (auto dest: match_tag_shorter)

text \<open>\<open>Tag.markup\<close>: the tag as it is written.\<close>

definition tag_markup :: "tag \<Rightarrow> pystr" where
  "tag_markup t =
     (case t of
        (name, None) \<Rightarrow> [91] @ name @ [93]
      | (name, Some parameters) \<Rightarrow> [91] @ name @ [61] @ parameters @ [93])"

text \<open>
  \<open>pop_style\<close>: the open tag with the given name that was opened last is taken off the
  stack of open tags (its top is the head of the list).
\<close>

fun pop_style :: "pystr \<Rightarrow> tag list \<Rightarrow> (tag \<times> tag list) option" where
  "pop_style style_name [] = None"
| "pop_style style_name (t # style_stack) =
     (if fst t = style_name then Some (t, style_stack)
      else case pop_style style_name style_stack of
             None \<Rightarrow> None
           | Some (found, stack') \<Rightarrow> Some (found, t # stack'))"

text \<open>
  When the tag that is closed is a handler tag (its name starts with \<open>@\<close>) with
  parameters, these are read with \<open>ast.literal_eval\<close>, and a failure there is a
  \<open>MarkupError\<close> too. Reading Python literals is outside the program: \<open>literal_error\<close>
  gives the text of that error, if there is one.
\<close>

definition handler_error :: "(pystr \<Rightarrow> pystr option) \<Rightarrow> tag \<Rightarrow> pystr option" where
  "handler_error literal_error opened =
     (case opened of
        (name, parameters) \<Rightarrow>
          if prefix [64] name then
            (case parameters of
               None \<Rightarrow> None
             | Some ps \<Rightarrow> if ps = [] then None else literal_error ps)
          else None)"

text \<open>
  The loop of \<open>render\<close> over the tags. The result is the text of the \<open>MarkupError\<close>
  raised, or \<open>None\<close> when the markup renders. A tag whose name starts with \<open>/\<close> closes:
  with a name, the open tag of that name, and without one, the tag opened last. Names
  are compared in the normal form of \<open>Style.normalize\<close>, which rests on the colour and
  attribute tables of the library: it is the parameter \<open>style_normalize\<close>.
\<close>

fun render_tags :: "(pystr \<Rightarrow> pystr) \<Rightarrow> (pystr \<Rightarrow> pystr option) \<Rightarrow> (nat \<times> tag) list \<Rightarrow> tag list \<Rightarrow> pystr option" where
  "render_tags style_normalize literal_error [] style_stack = None"
| "render_tags style_normalize literal_error ((position, t) # tags) style_stack =
     (if prefix [47] (fst t) then
        (let style_name = strip (tl (fst t))
         in if style_name \<noteq> [] then
              (case pop_style (style_normalize style_name) style_stack of
                 None \<Rightarrow>
                   Some (str ''closing tag '' @ [39] @ tag_markup t @ [39] @ str '' at position '' @
                         decimal position @ str '' doesn'' @ [39] @ str ''t match any open tag'')
               | Some (opened, stack') \<Rightarrow>
                   (case handler_error literal_error opened of
                      Some message \<Rightarrow> Some message
                    | None \<Rightarrow> render_tags style_normalize literal_error tags stack'))
            else
              (case style_stack of
                 [] \<Rightarrow>
                   Some (str ''closing tag '' @ [39] @ str ''[/]'' @ [39] @ str '' at position '' @
                         decimal position @ str '' has nothing to close'')
               | opened # stack' \<Rightarrow>
                   (case handler_error literal_error opened of
                      Some message \<Rightarrow> Some message
                    | None \<Rightarrow> render_tags style_normalize literal_error tags stack')))
      else render_tags style_normalize literal_error tags
             ((style_normalize (fst t), snd t) # style_stack))"

definition markup_error :: "(pystr \<Rightarrow> pystr) \<Rightarrow> (pystr \<Rightarrow> pystr option) \<Rightarrow> pystr \<Rightarrow> pystr option" where
  "markup_error style_normalize literal_error markup =
     render_tags style_normalize literal_error (markup_tags 0 markup) []"

section \<open>The session object \<open>GroqChat\<close>\<close>

text \<open>A message is the dictionary \<open>{"role": ..., "content": ...}\<close>.\<close>

record message =
  role :: pystr
  content :: pystr

text \<open>
  The configuration dictionary. Its numbers are Python floats and an integer that are
  handed to the remote call as they are; nothing in the program computes with them.
\<close>

record config =
  temperature :: real
  max_completion_tokens :: int
  top_p :: real
  stream :: bool

record groq_chat =
  conversation_history :: "message list"
  config :: config

text \<open>\<open>GroqChat.__init__\<close> (the client handle has no state of its own here).\<close>

definition init :: groq_chat where
  "init = \<lparr>conversation_history = [],
           config = \<lparr>temperature = 6 / 10, max_completion_tokens = 4096,
                     top_p = 95 / 100, stream = False\<rparr>\<rparr>"

text \<open>
  Exceptions, all of them subclasses of \<open>Exception\<close>: whatever the client library raises
  (with its text), the ones the interpreter raises in the code below, and the
  \<open>MarkupError\<close> of the terminal library. \<open>exn_str\<close> is \<open>str(e)\<close>.
\<close>

datatype exn =
    RemoteException pystr
  | IndexError
  | AttributeError pystr
  | TypeError pystr
  | EOFError
  | MarkupError pystr

fun exn_str :: "exn \<Rightarrow> pystr" where
  "exn_str (RemoteException t) = t"
| "exn_str IndexError = str ''list index out of range''"
| "exn_str (AttributeError t) = t"
| "exn_str (TypeError t) = t"
| "exn_str EOFError = []"
| "exn_str (MarkupError t) = t"

text \<open>The text of the \<open>AttributeError\<close> for an object of a type without the attribute read.\<close>

definition no_attribute :: "pystr \<Rightarrow> pystr \<Rightarrow> pystr" where
  "no_attribute type_name attribute =
     [39] @ type_name @ [39] @ str '' object has no attribute '' @ [39] @ attribute @ [39]"

text \<open>
  The text of the \<open>TypeError\<close> that \<open>re.findall\<close> raises for \<open>None\<close> in place of a text
  (CPython 3.11 and later).
\<close>

definition findall_none :: pystr where
  "findall_none = str ''expected string or bytes-like object, got '' @ [39] @ str ''NoneType'' @ [39]"

text \<open>
  The remote completion call is outside the program. It receives the keyword arguments
  of \<open>client.chat.completions.create\<close> and either raises or returns an object:
  a completion with its choices (the \<open>message.content\<close> of each, possibly \<open>None\<close>), or a
  stream of chunks (for each chunk the \<open>delta.content\<close> of its choices), whose iteration
  may itself raise. A stream is finite here.
\<close>

record request =
  model :: pystr
  messages :: "message list"
  request_temperature :: real
  request_max_completion_tokens :: int
  request_top_p :: real
  request_stream :: bool
  stop :: "pystr option"

datatype completion =
    ChatCompletion "pystr option list"
  | ChunkStream "(exn + pystr option list) list"

type_synonym remote = "request \<Rightarrow> exn + completion"

text \<open>What the program writes to the terminal, in order. Timestamps and styling are left out.\<close>

datatype event =
    ConsoleClear
  | PrintText pystr
  | WelcomePanel
  | ModelInfoPanel
  | PromptShown
  | GoodbyePanel
  | HelpPanel
  | StatusStart
  | StatusUpdate nat
  | StatusStop
  | ApiErrorPanel exn
  | ThinkPanel pystr
  | ResponsePanel pystr
  | ErrorPanel exn

text \<open>\<open>GroqChat.create_reasoning_prompt\<close>.\<close>

definition create_reasoning_prompt :: "pystr \<Rightarrow> pystr" where
  "create_reasoning_prompt user_input =
     user_input @ [10, 10] @
     str ''Please approach this step-by-step:'' @ [10] @
     str ''1. First, analyze the question carefully'' @ [10] @
     str ''2. Break down your thinking process using <think> tags'' @ [10] @
     str ''3. Validate your reasoning'' @ [10] @
     str ''4. Provide a clear, final response''"

text \<open>The first two lines of \<open>chat\<close>: the formatted input is appended as a user message.\<close>

definition append_user :: "pystr \<Rightarrow> groq_chat \<Rightarrow> groq_chat" where
  "append_user user_input self =
     self\<lparr>conversation_history :=
            conversation_history self @
            [\<lparr>role = str ''user'', content = create_reasoning_prompt user_input\<rparr>]\<rparr>"

definition completion_request :: "groq_chat \<Rightarrow> request" where
  "completion_request self =
     \<lparr>model = str ''deepseek-r1-distill-llama-70b'',
      messages = conversation_history self,
      request_temperature = temperature (config self),
      request_max_completion_tokens = max_completion_tokens (config self),
      request_top_p = top_p (config self),
      request_stream = stream (config self),
      stop = None\<rparr>"

text \<open>
  The loop over the chunks of a stream: \<open>chunk.choices[0].delta.content or ""\<close> is added
  to the text so far and the status line shows its length. A chunk without choices
  raises \<open>IndexError\<close>.
\<close>

fun read_chunks :: "(exn + pystr option list) list \<Rightarrow> pystr \<Rightarrow> (exn + pystr) \<times> event list" where
  "read_chunks [] full_response = (Inr full_response, [])"
| "read_chunks (Inl e # chunks) full_response = (Inl e, [])"
| "read_chunks (Inr [] # chunks) full_response = (Inl IndexError, [])"
| "read_chunks (Inr (c # choices) # chunks) full_response =
     (let content = (case c of None \<Rightarrow> [] | Some t \<Rightarrow> t);
          full_response' = full_response @ content;
          (r, events) = read_chunks chunks full_response'
      in (r, StatusUpdate (length full_response') # events))"

text \<open>
  The body of the \<open>try\<close> block of \<open>chat\<close>: the call and the reading of its result. The
  value is \<open>full_response\<close>, which is \<open>None\<close> when the first choice carries no content.
  An object of the other kind than the \<open>stream\<close> setting expects has none of the
  attributes read from it, which raises \<open>AttributeError\<close>: a completion that is
  iterated gives pairs of a field name and a value, and a stream has no choices.
\<close>

definition request_completion :: "remote \<Rightarrow> groq_chat \<Rightarrow> (exn + pystr option) \<times> event list" where
  "request_completion remote self =
     (case remote (completion_request self) of
        Inl e \<Rightarrow> (Inl e, [])
      | Inr completion \<Rightarrow>
          if stream (config self) then
            (case completion of
               ChunkStream chunks \<Rightarrow>
                 (case read_chunks chunks [] of
                    (Inl e, events) \<Rightarrow> (Inl e, events)
                  | (Inr full_response, events) \<Rightarrow> (Inr (Some full_response), events))
             | ChatCompletion choices \<Rightarrow>
                 (Inl (AttributeError (no_attribute (str ''tuple'') (str ''choices''))), []))
          else
            (case completion of
               ChatCompletion choices \<Rightarrow>
                 (case choices of
                    [] \<Rightarrow> (Inl IndexError, [])
                  | c # others \<Rightarrow> (Inr c, []))
             | ChunkStream chunks \<Rightarrow>
                 (Inl (AttributeError (no_attribute (str ''Stream'') (str ''choices''))), [])))"

definition apology :: pystr where
  "apology = str ''I apologize, but I encountered an error. Please try again.''"

text \<open>The content of the panel that the \<open>except\<close> branch of \<open>chat\<close> prints: markup around \<open>str(e)\<close>.\<close>

definition api_error_text :: "exn \<Rightarrow> pystr" where
  "api_error_text e =
     str ''[error]API Error: '' @ exn_str e @ str ''[/]'' @ [10] @
     str ''[info]Attempting to recover...[/]''"

text \<open>
  \<open>GroqChat.chat\<close>. The result is what the method returns or the exception it raises,
  the object afterwards, and what was written to the terminal. \<open>markup\<close> is the
  rendering of console markup by the terminal library: the text of the \<open>MarkupError\<close> it
  raises for a text, or \<open>None\<close>.

  An exception inside the \<open>try\<close> block is caught: the handler prints a panel with the
  text of the exception inside markup and returns the apology. When that markup does not
  render, the \<open>MarkupError\<close> leaves the handler and the method. Outside the \<open>try\<close> block,
  a \<open>full_response\<close> of \<open>None\<close> makes \<open>re.findall\<close> raise \<open>TypeError\<close>, which leaves the
  method as well.
\<close>

definition chat :: "(pystr \<Rightarrow> pystr option) \<Rightarrow> remote \<Rightarrow> pystr \<Rightarrow> groq_chat \<Rightarrow> (exn + pystr list \<times> pystr) \<times> groq_chat \<times> event list" where
  "chat markup remote user_input self =
     (let self1 = append_user user_input self
      in case request_completion remote self1 of
           (Inl e, events) \<Rightarrow>
             (case markup (api_error_text e) of
                Some message \<Rightarrow>
                  (Inl (MarkupError message), self1, [StatusStart] @ events @ [StatusStop])
              | None \<Rightarrow>
                  (Inr ([], apology), self1,
                   [StatusStart] @ events @ [ApiErrorPanel e, StatusStop]))
         | (Inr None, events) \<Rightarrow>
             (Inl (TypeError findall_none), self1, [StatusStart] @ events @ [StatusStop])
         | (Inr (Some full_response), events) \<Rightarrow>
             (let (thinking, response) = extract_think_content full_response;
                  history = conversation_history self1 @
                            [\<lparr>role = str ''assistant'', content = full_response\<rparr>];
                  history' = (if length history > 10
                              then drop (length history - 10) history else history)
              in (Inr (thinking, response), self1\<lparr>conversation_history := history'\<rparr>,
                  [StatusStart] @ events @ [StatusStop])))"

section \<open>The command loop \<open>main\<close>\<close>

text \<open>The state of \<open>main\<close>: its session object and the terminal.\<close>

record world =
  session :: groq_chat
  console :: "event list"

definition emit :: "event list \<Rightarrow> world \<Rightarrow> world" where
  "emit events w = w\<lparr>console := console w @ events\<rparr>"

definition display_welcome :: "event list" where
  "display_welcome = [PrintText [10], WelcomePanel, PrintText [10]]"

datatype control = Continue | Break

text \<open>
  The \<open>except\<close> branch of the loop body: a panel with the text of the exception inside
  markup. When that markup does not render, the \<open>MarkupError\<close> leaves the loop.
\<close>

definition error_text :: "exn \<Rightarrow> pystr" where
  "error_text e = str ''[error]An error occurred: '' @ exn_str e @ str ''[/]''"

definition show_error :: "(pystr \<Rightarrow> pystr option) \<Rightarrow> exn \<Rightarrow> world \<Rightarrow> (exn + control) \<times> world" where
  "show_error markup e w =
     (case markup (error_text e) of
        Some message \<Rightarrow> (Inl (MarkupError message), w)
      | None \<Rightarrow> (Inr Continue, emit [ErrorPanel e] w))"

text \<open>
  One pass through the body of \<open>while True\<close>, for the line that \<open>Prompt.ask\<close> returned
  and the behaviour of the remote call during this pass. \<open>str.lower\<close> follows the case
  tables of the interpreter, which are not part of the program: it is the parameter
  \<open>lower\<close>. An exception that leaves \<open>chat\<close> is caught here and shown; so is the
  \<open>MarkupError\<close> of the panel of the thoughts, whose content is markup around each
  thought. The answer is shown as Markdown, not as markup.
\<close>

definition main_body :: "(pystr \<Rightarrow> pystr) \<Rightarrow> (pystr \<Rightarrow> pystr option) \<Rightarrow> remote \<Rightarrow> pystr \<Rightarrow> world \<Rightarrow> (exn + control) \<times> world" where
  "main_body lower markup remote line w =
     (let w1 = emit [PrintText [], PromptShown] w;
          user_input = strip line
      in if lower user_input = str ''quit'' then
           (Inr Break, emit [PrintText [10], GoodbyePanel] w1)
         else if lower user_input = str ''/clear'' then
           (Inr Continue, emit ([ConsoleClear] @ display_welcome) w1)
         else if lower user_input = str ''/help'' then
           (Inr Continue, emit [HelpPanel] w1)
         else
           (case chat markup remote user_input (session w1) of
              (Inl e, self', events) \<Rightarrow>
                show_error markup e (emit ([PrintText []] @ events) (w1\<lparr>session := self'\<rparr>))
            | (Inr (thinking, response), self', events) \<Rightarrow>
                (let w2 = emit ([PrintText []] @ events) (w1\<lparr>session := self'\<rparr>);
                     answer = [ResponsePanel response,
                               PrintText ([10] @ replicate 100 9472 @ [10])]
                 in if thinking \<noteq> [] then
                      (case markup (format_thinking thinking) of
                         Some message \<Rightarrow> show_error markup (MarkupError message) w2
                       | None \<Rightarrow>
                           (Inr Continue,
                            emit ([ThinkPanel (format_thinking thinking), PrintText []] @ answer)
                                 w2))
                    else (Inr Continue, emit answer w2))))"

text \<open>
  The loop, over the lines the user enters. When the input ends, \<open>Prompt.ask\<close> raises
  \<open>EOFError\<close>, which leaves \<open>main\<close>, as does an exception of the loop body.
\<close>

fun main_loop :: "(pystr \<Rightarrow> pystr) \<Rightarrow> (pystr \<Rightarrow> pystr option) \<Rightarrow> (pystr \<times> remote) list \<Rightarrow> world \<Rightarrow> (exn + unit) \<times> world" where
  "main_loop lower markup [] w = (Inl EOFError, emit [PrintText [], PromptShown] w)"
| "main_loop lower markup ((line, remote) # inputs) w =
     (case main_body lower markup remote line w of
        (Inl e, w') \<Rightarrow> (Inl e, w')
      | (Inr Break, w') \<Rightarrow> (Inr (), w')
      | (Inr Continue, w') \<Rightarrow> main_loop lower markup inputs w')"

definition main :: "(pystr \<Rightarrow> pystr) \<Rightarrow> (pystr \<Rightarrow> pystr option) \<Rightarrow> (pystr \<times> remote) list \<Rightarrow> (exn + unit) \<times> world" where
  "main lower markup inputs =
     main_loop lower markup inputs
       \<lparr>session = init, console = [ConsoleClear] @ display_welcome @ [ModelInfoPanel]\<rparr>"

section \<open>Remote calls, terminal and sessions used in the examples\<close>

text \<open>
  The rendering of markup in the examples: a name that is not a style definition has
  itself, trimmed and in small letters, as its normal form, and there are no handler
  tags. The texts of the examples have implicit closing tags only.
\<close>

definition rich_markup :: "pystr \<Rightarrow> pystr option" where
  "rich_markup = markup_error (\<lambda>name. ascii_lower (strip name)) (\<lambda>parameters. None)"

text \<open>A remote call that fails, and one that answers with a given text.\<close>

definition remote_down :: remote where
  "remote_down req = Inl (RemoteException (str ''connection refused''))"

definition remote_reply :: "pystr \<Rightarrow> remote" where
  "remote_reply raw req = Inr (ChatCompletion [Some raw])"

text \<open>A remote call that fails with a given text.\<close>

definition remote_raises :: "pystr \<Rightarrow> remote" where
  "remote_raises t req = Inl (RemoteException t)"

text \<open>The user enters \<open>hello\<close> and the remote call answers \<open>ok\<close>.\<close>

definition hello :: "pystr \<times> remote" where
  "hello = (str ''hello'', remote_reply (str ''ok''))"

text \<open>The session of a program run after five such turns.\<close>

definition full_session :: groq_chat where
  "full_session = session (snd (main ascii_lower rich_markup [hello, hello, hello, hello, hello]))"

section \<open>Facts about the remote call inside \<open>chat\<close>\<close>

lemma config_append_user: "config (append_user user_input self) = config self"
  by (simp add: append_user_def)

lemma request_completion_raises:
  "remote (completion_request self) = Inl e \<Longrightarrow> request_completion remote self = (Inl e, [])"
  by (simp add: request_completion_def)

lemma request_completion_plain:
  "\<not> stream (config self) \<Longrightarrow>
   remote (completion_request self) = Inr (ChatCompletion (c # others)) \<Longrightarrow>
   request_completion remote self = (Inr c, [])"
  by (simp add: request_completion_def)

lemma request_completion_stream:
  "stream (config self) \<Longrightarrow>
   remote (completion_request self) = Inr (ChunkStream chunks) \<Longrightarrow>
   read_chunks chunks [] = (Inr full_response, events) \<Longrightarrow>
   request_completion remote self = (Inr (Some full_response), events)"
  by (simp add: request_completion_def)

lemma read_chunks_two:
  "read_chunks [Inr [Some (str ''ab'')], Inr [None], Inr [Some (str ''c'')]] [] =
     (Inr (str ''abc''), [StatusUpdate 2, StatusUpdate 2, StatusUpdate 3])"
  by simp

lemma request_completion_remote_reply:
  "\<not> stream (config self) \<Longrightarrow>
   request_completion (remote_reply raw) (append_user user_input self) = (Inr (Some raw), [])"
  by (rule request_completion_plain) (simp_all add: config_append_user remote_reply_def)

lemma request_completion_remote_down:
  "request_completion remote_down self = (Inl (RemoteException (str ''connection refused'')), [])"
  by (rule request_completion_raises) (simp add: remote_down_def)

lemma request_completion_remote_raises:
  "request_completion (remote_raises t) self = (Inl (RemoteException t), [])"
  by (rule request_completion_raises) (simp add: remote_raises_def)

lemma init_config: "\<not> stream (config init)"
  by (simp add: init_def)

lemma parse_ok: "extract_think_content (str ''ok'') = ([], str ''ok'')"
  by (simp add: extract_think_content_def match_think_def open_tag_def close_tag_def
      strip_def isspace_def)

lemma parse_thought:
  "extract_think_content (str ''<think>t</think>hi'') = ([str ''t''], str ''hi'')"
  by (simp add: extract_think_content_def match_think_def open_tag_def close_tag_def
      strip_def isspace_def)

lemma panel_thought: "rich_markup (format_thinking [str ''t'']) = None"
  by (simp add: format_thinking_def rich_markup_def markup_error_def match_tag_def tag_start_def
      handler_error_def strip_def isspace_def ascii_lower_def)

lemma full_session_length: "length (conversation_history full_session) = 10"
  by (simp add: full_session_def hello_def main_def main_body_def emit_def display_welcome_def
      ascii_lower_def strip_def isspace_def chat_def append_user_def request_completion_def
      remote_reply_def completion_request_def init_def parse_ok [simplified])

lemma full_session_config: "\<not> stream (config full_session)"
  by (simp add: full_session_def hello_def main_def main_body_def emit_def display_welcome_def
      ascii_lower_def strip_def isspace_def chat_def append_user_def request_completion_def
      remote_reply_def completion_request_def init_def parse_ok [simplified])

lemma chat_triple:
  "chat markup remote user_input self =
     (fst (chat markup remote user_input self), fst (snd (chat markup remote user_input self)),
      snd (snd (chat markup remote user_input self)))"
  by simp

lemma chat_config: "config (fst (snd (chat markup remote user_input self))) = config self"
  by (simp add: chat_def Let_def config_append_user split: prod.splits sum.splits option.splits)

text \<open>
  The two outcomes of the \<open>except\<close> branch of \<open>chat\<close>: the apology when the panel renders,
  the \<open>MarkupError\<close> when it does not. In both the session is the one before the call
  with the user message appended.
\<close>

lemma chat_failure_recovered:
  assumes "request_completion remote (append_user user_input self) = (Inl e, events)"
    and "markup (api_error_text e) = None"
  shows "chat markup remote user_input self =
           (Inr ([], apology),
            self\<lparr>conversation_history := conversation_history self @
                   [\<lparr>role = str ''user'', content = create_reasoning_prompt user_input\<rparr>]\<rparr>,
            [StatusStart] @ events @ [ApiErrorPanel e, StatusStop])"
  using assms by (simp add: chat_def Let_def) (simp add: append_user_def)

lemma chat_failure_raises:
  assumes "request_completion remote (append_user user_input self) = (Inl e, events)"
    and "markup (api_error_text e) = Some message"
  shows "chat markup remote user_input self =
           (Inl (MarkupError message),
            self\<lparr>conversation_history := conversation_history self @
                   [\<lparr>role = str ''user'', content = create_reasoning_prompt user_input\<rparr>]\<rparr>,
            [StatusStart] @ events @ [StatusStop])"
  using assms by (simp add: chat_def Let_def) (simp add: append_user_def)

lemma panel_connection_refused:
  "rich_markup (api_error_text (RemoteException (str ''connection refused''))) = None"
  by (simp add: api_error_text_def rich_markup_def markup_error_def match_tag_def tag_start_def
      handler_error_def strip_def isspace_def ascii_lower_def)

lemma panel_closing_tag:
  "rich_markup (api_error_text (RemoteException (str ''[/]''))) =
     Some (str ''closing tag '' @ [39] @ str ''[/]'' @ [39] @
           str '' at position 21 has nothing to close'')"
  by (simp add: api_error_text_def rich_markup_def markup_error_def match_tag_def tag_start_def
      handler_error_def decimal.simps strip_def isspace_def ascii_lower_def)

section \<open>The \<open>/clear\<close> command\<close>

text \<open>
  C1. The claim: \<open>/clear\<close> resets the session, so that afterwards the conversation
  history is empty whatever it was before. The banner and the help panel of the program
  say so too (\<open>/clear\<close> resets, clears the conversation). The program does not: after one
  turn and \<open>/clear\<close> the history still holds the two messages of that turn.
\<close>

theorem clear_after_one_turn:
  "conversation_history (session (snd (main ascii_lower rich_markup
      [(str ''hello'', remote_reply (str ''<think>t</think>hi'')), (str ''/clear'', remote_down)]))) =
   [\<lparr>role = str ''user'', content = create_reasoning_prompt (str ''hello'')\<rparr>,
    \<lparr>role = str ''assistant'', content = str ''<think>t</think>hi''\<rparr>]"
  by (simp add: main_def main_body_def emit_def display_welcome_def ascii_lower_def strip_def
      isspace_def chat_def append_user_def request_completion_def remote_reply_def
      completion_request_def init_def parse_thought [simplified] panel_thought [simplified])

text \<open>
  C10. A line that is \<open>/clear\<close> after trimming and lower-casing leaves the session object
  as it is, history included: the pass only writes to the terminal (the prompt, then the
  cleared screen and the welcome banner) and the loop goes on.
\<close>

theorem clear_keeps_session:
  assumes "lower (strip line) = str ''/clear''"
  shows "main_body lower markup remote line w =
           (Inr Continue,
            w\<lparr>console := console w @
                 [PrintText [], PromptShown,
                  ConsoleClear, PrintText [10], WelcomePanel, PrintText [10]]\<rparr>)"
  using assms by (simp add: main_body_def emit_def display_welcome_def)

text \<open>C10, at the line \<open>/Clear\<close> with blanks around it, in a session that holds one message.\<close>

theorem clear_keeps_session_witness:
  "ascii_lower (strip (str '' /Clear '')) = str ''/clear'' \<and>
   session (snd (main_body ascii_lower rich_markup remote_down (str '' /Clear '')
      \<lparr>session = init\<lparr>conversation_history := [\<lparr>role = str ''user'', content = str ''q''\<rparr>]\<rparr>,
       console = []\<rparr>))
   = init\<lparr>conversation_history := [\<lparr>role = str ''user'', content = str ''q''\<rparr>]\<rparr>"
proof -
  have h: "ascii_lower (strip (str '' /Clear '')) = str ''/clear''"
    by (simp add: ascii_lower_def strip_def isspace_def)
  show ?thesis
    using h clear_keeps_session [of ascii_lower "str '' /Clear ''", OF h, of rich_markup remote_down]
    by simp
qed

section \<open>\<open>chat\<close>: failure of the remote call\<close>

text \<open>
  C4. The claim: when the remote call raises, \<open>chat\<close> does not raise, returns no thoughts
  and the apology, and leaves the history with the user message as its last. The handler
  is written to do so, but it puts the text of the exception inside markup unescaped:
  for a remote call that fails with the text \<open>[/]\<close>, the closing tag of the panel has
  nothing left to close, and \<open>chat\<close> raises \<open>MarkupError\<close> in place of returning the
  apology. The history is the one the claim describes.
\<close>

theorem chat_failure_handler_raises:
  "chat rich_markup (remote_raises (str ''[/]'')) (str ''hi'') init =
     (Inl (MarkupError (str ''closing tag '' @ [39] @ str ''[/]'' @ [39] @
                        str '' at position 21 has nothing to close'')),
      init\<lparr>conversation_history :=
             [\<lparr>role = str ''user'', content = create_reasoning_prompt (str ''hi'')\<rparr>]\<rparr>,
      [StatusStart, StatusStop])"
  using chat_failure_raises [where markup = rich_markup and user_input = "str ''hi''" and self = init,
      OF request_completion_remote_raises panel_closing_tag]
  by (simp add: init_def)

section \<open>\<open>chat\<close>: the length of the history\<close>

text \<open>
  C5 as claimed: after every call of \<open>chat\<close> that has returned, the history has at most
  10 messages. It fails: in a session that holds 10 messages, a call whose remote call
  fails returns the apology and leaves 11 messages.
\<close>

theorem failed_send_exceeds_cap:
  "length (conversation_history full_session) = 10 \<and>
   fst (chat rich_markup remote_down (str ''hello'') full_session) = Inr ([], apology) \<and>
   \<not> length (conversation_history
              (fst (snd (chat rich_markup remote_down (str ''hello'') full_session)))) \<le> 10"
  using chat_failure_recovered [where markup = rich_markup and user_input = "str ''hello''"
      and self = full_session, OF request_completion_remote_down panel_connection_refused]
  by (simp add: full_session_length)

text \<open>
  C5, amended: after every call of \<open>chat\<close> whose remote call gave a text, the history has
  at most 10 messages; when the history with the two new messages was longer than 10,
  exactly its last 10 messages are kept, in their order, and otherwise all of it is kept.
\<close>

theorem chat_success_truncates:
  assumes "request_completion remote (append_user user_input self) = (Inr (Some raw), events)"
    and "chat markup remote user_input self = (result, self', out)"
    and "history = conversation_history self @
           [\<lparr>role = str ''user'', content = create_reasoning_prompt user_input\<rparr>,
            \<lparr>role = str ''assistant'', content = raw\<rparr>]"
  shows "length (conversation_history self') \<le> 10 \<and>
         (length history > 10 \<longrightarrow>
            conversation_history self' = drop (length history - 10) history \<and>
            length (conversation_history self') = 10 \<and>
            history = take (length history - 10) history @ conversation_history self') \<and>
         (length history \<le> 10 \<longrightarrow> conversation_history self' = history)"
  using assms
  by (auto simp: chat_def Let_def append_user_def split: prod.splits)

text \<open>C5, amended, for a successful turn in a session that holds 10 messages.\<close>

theorem chat_success_truncates_witness:
  "request_completion (remote_reply (str ''ok'')) (append_user (str ''more'') full_session) =
     (Inr (Some (str ''ok'')), []) \<and>
   length (conversation_history full_session @
           [\<lparr>role = str ''user'', content = create_reasoning_prompt (str ''more'')\<rparr>,
            \<lparr>role = str ''assistant'', content = str ''ok''\<rparr>]) = 12 \<and>
   conversation_history
     (fst (snd (chat rich_markup (remote_reply (str ''ok'')) (str ''more'') full_session))) =
     drop 2 (conversation_history full_session @
           [\<lparr>role = str ''user'', content = create_reasoning_prompt (str ''more'')\<rparr>,
            \<lparr>role = str ''assistant'', content = str ''ok''\<rparr>]) \<and>
   length (conversation_history
            (fst (snd (chat rich_markup (remote_reply (str ''ok'')) (str ''more'') full_session)))) = 10"
proof -
  have h: "request_completion (remote_reply (str ''ok'')) (append_user (str ''more'') full_session) =
     (Inr (Some (str ''ok'')), [])"
    by (rule request_completion_remote_reply [OF full_session_config])
  show ?thesis
    using h chat_success_truncates [OF h chat_triple refl, of rich_markup] full_session_length
    by simp
qed

section \<open>\<open>chat\<close>: what is stored\<close>



text \<open>
  C9. In a session with an empty history, two calls of \<open>chat\<close> in a row whose remote
  calls gave a text leave exactly four messages: user, assistant, user, assistant.
\<close>

theorem two_sends_four_messages:
  assumes "conversation_history self = []"
    and "request_completion remote1 (append_user input1 self) = (Inr (Some raw1), events1)"
    and "chat markup remote1 input1 self = (result1, self1, out1)"
    and "request_completion remote2 (append_user input2 self1) = (Inr (Some raw2), events2)"
    and "chat markup remote2 input2 self1 = (result2, self2, out2)"
  shows "conversation_history self2 =
           [\<lparr>role = str ''user'', content = create_reasoning_prompt input1\<rparr>,
            \<lparr>role = str ''assistant'', content = raw1\<rparr>,
            \<lparr>role = str ''user'', content = create_reasoning_prompt input2\<rparr>,
            \<lparr>role = str ''assistant'', content = raw2\<rparr>] \<and>
         length (conversation_history self2) = 4 \<and>
         map role (conversation_history self2) =
           [str ''user'', str ''assistant'', str ''user'', str ''assistant'']"
proof -
  from assms(1-3) have h1: "conversation_history self1 =
      [\<lparr>role = str ''user'', content = create_reasoning_prompt input1\<rparr>,
       \<lparr>role = str ''assistant'', content = raw1\<rparr>]"
    by (auto simp: chat_def Let_def append_user_def split: prod.splits)
  from assms(4,5) h1 have "conversation_history self2 =
      [\<lparr>role = str ''user'', content = create_reasoning_prompt input1\<rparr>,
       \<lparr>role = str ''assistant'', content = raw1\<rparr>,
       \<lparr>role = str ''user'', content = create_reasoning_prompt input2\<rparr>,
       \<lparr>role = str ''assistant'', content = raw2\<rparr>]"
    by (auto simp: chat_def Let_def append_user_def split: prod.splits)
  then show ?thesis by simp
qed

text \<open>C9, for two turns answered \<open>ok\<close> and \<open>fine\<close> in the session a program run starts with.\<close>

theorem two_sends_four_messages_witness:
  "conversation_history init = [] \<and>
   request_completion (remote_reply (str ''ok'')) (append_user (str ''one'') init) =
     (Inr (Some (str ''ok'')), []) \<and>
   request_completion (remote_reply (str ''fine''))
     (append_user (str ''two'')
        (fst (snd (chat rich_markup (remote_reply (str ''ok'')) (str ''one'') init)))) =
     (Inr (Some (str ''fine'')), []) \<and>
   map role (conversation_history
     (fst (snd (chat rich_markup (remote_reply (str ''fine'')) (str ''two'')
        (fst (snd (chat rich_markup (remote_reply (str ''ok'')) (str ''one'') init))))))) =
     [str ''user'', str ''assistant'', str ''user'', str ''assistant'']"
proof -
  have h0: "conversation_history init = []"
    by (simp add: init_def)
  have h1: "request_completion (remote_reply (str ''ok'')) (append_user (str ''one'') init) =
     (Inr (Some (str ''ok'')), [])"
    by (rule request_completion_remote_reply [OF init_config])
  have "\<not> stream (config (fst (snd (chat rich_markup (remote_reply (str ''ok'')) (str ''one'') init))))"
    by (simp only: chat_config init_config not_False_eq_True)
  then have h2: "request_completion (remote_reply (str ''fine''))
     (append_user (str ''two'')
        (fst (snd (chat rich_markup (remote_reply (str ''ok'')) (str ''one'') init)))) =
     (Inr (Some (str ''fine'')), [])"
    by (rule request_completion_remote_reply)
  show ?thesis
    using h0 h1 h2 two_sends_four_messages [OF h0 h1 chat_triple h2 chat_triple]
    by simp
qed

section \<open>\<open>extract_think_content\<close> on the text with two spans\<close>

text \<open>
  C3 as claimed: for \<open><think>a</think>mid<think>b</think>end\<close> the answer is \<open>mid end\<close>,
  the pieces around the spans joined by a blank. It is not.
\<close>

theorem two_spans_not_joined_by_blank:
  "extract_think_content (str ''<think>a</think>mid<think>b</think>end'') \<noteq>
     ([str ''a'', str ''b''], str ''mid end'')"
  by (simp add: extract_think_content_def match_think_def open_tag_def close_tag_def
      strip_def isspace_def)

text \<open>
  C3, amended: for \<open><think>a</think>mid<think>b</think>end\<close> the thoughts are \<open>a\<close> and
  \<open>b\<close> and the answer is \<open>midend\<close>: the spans are replaced by the empty text, so the
  pieces around them meet with nothing in between.
\<close>

theorem two_spans_removed:
  "extract_think_content (str ''<think>a</think>mid<think>b</think>end'') =
     ([str ''a'', str ''b''], str ''midend'')"
  by (simp add: extract_think_content_def match_think_def open_tag_def close_tag_def
      strip_def isspace_def)

section \<open>Facts about the search\<close>

lemma contains_sublist: "contains pat s \<longleftrightarrow> sublist pat s"
  by (induction s) (simp_all add: sublist_Cons_right)

lemma prefix_contains: "prefix pat s \<Longrightarrow> contains pat s"
  by (simp add: contains_sublist)



lemma no_open_no_match: "\<not> contains open_tag s \<Longrightarrow> match_think s = None"
  by (auto simp: match_think_def dest: prefix_contains)


lemma no_open_search: "\<not> contains open_tag s \<Longrightarrow> findall_think s = [] \<and> sub_think s = s"
proof (induction s)
  case Nil
  then show ?case by simp
next
  case (Cons c cs)
  from Cons.prems have m: "match_think (c # cs) = None"
    by (rule no_open_no_match)
  from Cons.prems have "\<not> contains open_tag cs"
    by simp
  with Cons.IH m show ?case by simp
qed


lemma dropWhile_front: "dropWhile P (rev (dropWhile P (rev (dropWhile P s)))) = rev (dropWhile P (rev (dropWhile P s)))"
proof (cases "dropWhile P s")
  case Nil
  show ?thesis unfolding Nil by simp
next
  case (Cons a as)
  then have na: "\<not> P a"
    by (metis hd_dropWhile list.sel(1) list.distinct(1))
  have "rev (dropWhile P (rev (a # as))) \<noteq> [] \<and> hd (rev (dropWhile P (rev (a # as)))) = a"
  proof -
    have "dropWhile P (rev as @ [a]) = dropWhile P (rev as) @ [a]"
      using na by (simp add: dropWhile_append)
    then show ?thesis by simp
  qed
  then obtain bs where "rev (dropWhile P (rev (a # as))) = a # bs"
    by (cases "rev (dropWhile P (rev (a # as)))") auto
  with na Cons show ?thesis by simp
qed

lemma strip_strip: "strip (strip s) = strip s"
  by (simp add: strip_def dropWhile_front)







lemma prefix_drop: "prefix p s \<Longrightarrow> p @ drop (length p) s = s"
  by (auto simp: prefix_def)

lemma lazy_until_close_parts:
  "lazy_until_close s = Some (g, rest) \<Longrightarrow> s = g @ close_tag @ rest"
proof (induction s arbitrary: g)
  case Nil
  then show ?case by simp
next
  case (Cons c cs)
  show ?case
  proof (cases "prefix close_tag (c # cs)")
    case True
    with Cons.prems prefix_drop [OF True] show ?thesis by auto
  next
    case False
    with Cons.prems obtain g' where "lazy_until_close cs = Some (g', rest)" and "g = c # g'"
      by (auto split: option.splits)
    with Cons.IH [of g'] show ?thesis by simp
  qed
qed

lemma match_think_parts:
  assumes "match_think s = Some (g, rest)"
  shows "s = open_tag @ g @ close_tag @ rest"
proof -
  from assms have p: "prefix open_tag s"
    and l: "lazy_until_close (drop (length open_tag) s) = Some (g, rest)"
    by (auto simp: match_think_def split: if_splits)
  from lazy_until_close_parts [OF l] prefix_drop [OF p] show ?thesis by simp
qed

lemma slice_middle: "slice (xs @ ys @ zs) (length xs) (length xs + length ys) = ys"
  by (simp add: slice_def)

lemma findall_inner_text:
  "findall_think s = map (inner_text (pre @ s)) (think_spans (length pre) s)"
proof (induction s arbitrary: pre rule: findall_think.induct)
  case 1
  then show ?case by simp
next
  case (2 c cs)
  show ?case
  proof (cases "match_think (c # cs)")
    case None
    from 2(1) [OF None, of "pre @ [c]"] None show ?thesis by simp
  next
    case (Some x)
    obtain g rest where x: "x = (g, rest)" by (cases x)
    from Some x have parts: "c # cs = open_tag @ g @ close_tag @ rest"
      by (simp add: match_think_parts)
    have "findall_think rest =
            map (inner_text ((pre @ open_tag @ g @ close_tag) @ rest))
                (think_spans (length (pre @ open_tag @ g @ close_tag)) rest)"
      using Some x by (intro 2(2)) simp_all
    moreover have "inner_text (pre @ open_tag @ g @ close_tag @ rest)
            (length pre, length pre + length open_tag + length g + length close_tag) = g"
      using slice_middle [of "pre @ open_tag" g "close_tag @ rest"]
      by (simp add: inner_text_def add.assoc)
    moreover have "findall_think (c # cs) = g # findall_think rest"
      and "think_spans (length pre) (c # cs) =
             (length pre, length pre + length open_tag + length g + length close_tag) #
             think_spans (length pre + length open_tag + length g + length close_tag) rest"
      using Some x by simp_all
    ultimately show ?thesis
      by (simp add: parts add.assoc)
  qed
qed

lemma think_spans_in_order:
  "spans_in_order (length pre) (think_spans (length pre) s) (length (pre @ s))"
proof (induction s arbitrary: pre rule: findall_think.induct)
  case 1
  then show ?case by simp
next
  case (2 c cs)
  show ?case
  proof (cases "match_think (c # cs)")
    case None
    from 2(1) [OF None, of "pre @ [c]"] None show ?thesis
      by (cases "think_spans (Suc (length pre)) cs") auto
  next
    case (Some x)
    obtain g rest where x: "x = (g, rest)" by (cases x)
    from Some x have parts: "c # cs = open_tag @ g @ close_tag @ rest"
      by (simp add: match_think_parts)
    have "spans_in_order (length (pre @ open_tag @ g @ close_tag))
            (think_spans (length (pre @ open_tag @ g @ close_tag)) rest)
            (length ((pre @ open_tag @ g @ close_tag) @ rest))"
      using Some x by (intro 2(2)) simp_all
    moreover have "think_spans (length pre) (c # cs) =
             (length pre, length pre + length open_tag + length g + length close_tag) #
             think_spans (length pre + length open_tag + length g + length close_tag) rest"
      using Some x by simp
    ultimately show ?thesis
      by (simp add: parts add.assoc)
  qed
qed

lemma think_spans_tagged:
  "m \<in> set (think_spans (length pre) s) \<Longrightarrow> tagged_span (pre @ s) m"
proof (induction s arbitrary: pre rule: findall_think.induct)
  case 1
  then show ?case by simp
next
  case (2 c cs)
  show ?case
  proof (cases "match_think (c # cs)")
    case None
    with 2(3) have "m \<in> set (think_spans (length (pre @ [c])) cs)" by simp
    from 2(1) [OF None this] show ?thesis by simp
  next
    case (Some x)
    obtain g rest where x: "x = (g, rest)" by (cases x)
    from Some x have parts: "c # cs = open_tag @ g @ close_tag @ rest"
      by (simp add: match_think_parts)
    from 2(3) Some x have
      "m = (length pre, length pre + length open_tag + length g + length close_tag) \<or>
       m \<in> set (think_spans (length (pre @ open_tag @ g @ close_tag)) rest)"
      by (simp add: add.assoc)
    then show ?thesis
    proof
      assume m: "m = (length pre, length pre + length open_tag + length g + length close_tag)"
      have "slice (pre @ open_tag @ g @ close_tag @ rest) (length pre) (length pre + length open_tag) = open_tag"
        by (rule slice_middle)
      moreover have "slice ((pre @ open_tag @ g) @ close_tag @ rest) (length (pre @ open_tag @ g))
                       (length (pre @ open_tag @ g) + length close_tag) = close_tag"
        by (rule slice_middle)
      ultimately show ?thesis
        using m parts by (simp add: tagged_span_def add.assoc)
    next
      assume "m \<in> set (think_spans (length (pre @ open_tag @ g @ close_tag)) rest)"
      with Some x have "tagged_span ((pre @ open_tag @ g @ close_tag) @ rest) m"
        by (intro 2(2)) simp_all
      with parts show ?thesis by simp
    qed
  qed
qed

section \<open>\<open>extract_think_content\<close>: the thoughts\<close>

text \<open>
  C2 as claimed: every element of the thinking sequence is the trimmed inner text of a
  match. It is not: for \<open><think> a </think>\<close> the element is the inner text with its
  blanks, where the specification has \<open>a\<close>.
\<close>

theorem thinking_not_trimmed:
  "fst (extract_think_content (str ''<think> a </think>'')) = [str '' a ''] \<and>
   spec_thinking (str ''<think> a </think>'') = [str ''a''] \<and>
   fst (extract_think_content (str ''<think> a </think>'')) \<noteq> spec_thinking (str ''<think> a </think>'')"
  by (simp add: extract_think_content_def spec_thinking_def inner_text_def slice_def
      match_think_def open_tag_def close_tag_def strip_def isspace_def)

text \<open>
  C2, amended: the thinking sequence is the list of the inner texts of the matches as
  they stand in the text, untrimmed, one element per match in document order: the spans
  follow one another without overlap inside the text, and each starts with the opening
  tag and ends with the closing tag. (The display trims a thought when it formats it.)
\<close>

theorem thinking_is_inner_text:
  "fst (extract_think_content text) = map (inner_text text) (think_spans 0 text) \<and>
   spans_in_order 0 (think_spans 0 text) (length text) \<and>
   (\<forall>m \<in> set (think_spans 0 text). tagged_span text m)"
  using findall_inner_text [of "text" "[]"] think_spans_in_order [of "[]" "text"]
    think_spans_tagged [of _ "[]" "text"]
  by (simp add: extract_think_content_def)

text \<open>C2, amended, for a text with two spans, the first with blanks inside.\<close>

theorem thinking_is_inner_text_witness:
  "think_spans 0 (str ''<think> a </think>x<think>b</think>'') = [(0, 18), (19, 35)] \<and>
   fst (extract_think_content (str ''<think> a </think>x<think>b</think>'')) = [str '' a '', str ''b''] \<and>
   inner_text (str ''<think> a </think>x<think>b</think>'') (0, 18) = str '' a '' \<and>
   inner_text (str ''<think> a </think>x<think>b</think>'') (19, 35) = str ''b'' \<and>
   tagged_span (str ''<think> a </think>x<think>b</think>'') (0, 18) \<and>
   tagged_span (str ''<think> a </think>x<think>b</think>'') (19, 35)"
proof -
  have s: "think_spans 0 (str ''<think> a </think>x<think>b</think>'') = [(0, 18), (19, 35)]"
    by (simp add: match_think_def open_tag_def close_tag_def)
  have i: "inner_text (str ''<think> a </think>x<think>b</think>'') (0, 18) = str '' a ''"
    "inner_text (str ''<think> a </think>x<think>b</think>'') (19, 35) = str ''b''"
    by (simp_all add: inner_text_def slice_def open_tag_def close_tag_def)
  show ?thesis
    using thinking_is_inner_text [of "str ''<think> a </think>x<think>b</think>''"] s i
    by simp
qed

section \<open>\<open>extract_think_content\<close> on text without tags\<close>

text \<open>
  C6. For a text in which \<open><think>\<close> does not occur, there are no thoughts and the
  answer is the trimmed text; so an answer in which \<open><think>\<close> does not occur is parsed
  to no thoughts and itself.
\<close>

theorem no_tag_parse:
  "(\<not> contains open_tag text \<longrightarrow> extract_think_content text = ([], strip text)) \<and>
   (\<not> contains open_tag (snd (extract_think_content text)) \<longrightarrow>
      extract_think_content (snd (extract_think_content text)) = ([], snd (extract_think_content text)))"
  by (simp add: extract_think_content_def no_open_search strip_strip)

text \<open>C6, for \<open>Hello world\<close> with blanks around it.\<close>

theorem no_tag_parse_witness:
  "\<not> contains open_tag (str ''  Hello world '') \<and>
   extract_think_content (str ''  Hello world '') = ([], str ''Hello world'') \<and>
   \<not> contains open_tag (snd (extract_think_content (str ''  Hello world ''))) \<and>
   extract_think_content (str ''Hello world'') = ([], str ''Hello world'')"
proof -
  have h: "\<not> contains open_tag (str ''  Hello world '')"
    by (simp add: open_tag_def)
  have t: "strip (str ''  Hello world '') = str ''Hello world''"
    by (simp add: strip_def isspace_def)
  have e: "extract_think_content (str ''  Hello world '') = ([], str ''Hello world'')"
    using no_tag_parse [of "str ''  Hello world ''", THEN conjunct1] h t by simp
  have h': "\<not> contains open_tag (snd (extract_think_content (str ''  Hello world '')))"
    unfolding e by (simp add: open_tag_def)
  have "extract_think_content (snd (extract_think_content (str ''  Hello world ''))) =
          ([], snd (extract_think_content (str ''  Hello world '')))"
    using no_tag_parse [of "str ''  Hello world ''", THEN conjunct2] h' by blast
  then have e': "extract_think_content (str ''Hello world'') = ([], str ''Hello world'')"
    unfolding e by simp
  from h e h' e' show ?thesis by blast
qed

section \<open>\<open>extract_think_content\<close> on an unclosed tag\<close>




end
